theory Spec2Isabelle
  imports Complex_Main
begin

section \<open>Exceptions\<close>

text \<open>
  The exception classes that \<open>modules/reddit_listener.py\<close> names, together with the
  base classes they inherit from and a few representatives of classes the module does
  not name (\<open>TooManyRequests\<close> for the other subclasses of \<open>ResponseException\<close>,
  \<open>ValueError\<close> and \<open>RuntimeError\<close> for ordinary exceptions, \<open>SystemExit\<close> and
  \<open>GeneratorExit\<close> for the base exceptions that are no \<open>Exception\<close>).
\<close>

datatype exc_class =
    BaseException
  | Exception
  | KeyboardInterrupt
  | SystemExit
  | GeneratorExit
  | ValueError
  | RuntimeError
  | PrawcoreException
  | OAuthException
  | RequestException
  | ResponseException
  | BadRequest
  | Forbidden
  | InvalidToken
  | NotFound
  | ServerError
  | TooManyRequests

text \<open>
  An exception object: its class, the text \<open>str(e)\<close> and the \<open>__cause__\<close> set by
  \<open>raise ... from e\<close>.
\<close>

datatype exc = Exc (cls: exc_class) (detail: string) (cause: "exc option")

text \<open>
  The method resolution order of each class: the class itself and its bases, as Python
  and prawcore declare them. In prawcore \<open>BadRequest\<close>, \<open>Forbidden\<close>, \<open>InvalidToken\<close>,
  \<open>NotFound\<close>, \<open>ServerError\<close> and \<open>TooManyRequests\<close> all derive from
  \<open>ResponseException\<close>.
\<close>

fun mro :: "exc_class \<Rightarrow> exc_class list" where
  "mro BaseException = [BaseException]"
| "mro Exception = [Exception, BaseException]"
| "mro KeyboardInterrupt = [KeyboardInterrupt, BaseException]"
| "mro SystemExit = [SystemExit, BaseException]"
| "mro GeneratorExit = [GeneratorExit, BaseException]"
| "mro ValueError = [ValueError, Exception, BaseException]"
| "mro RuntimeError = [RuntimeError, Exception, BaseException]"
| "mro PrawcoreException = [PrawcoreException, Exception, BaseException]"
| "mro OAuthException = [OAuthException, PrawcoreException, Exception, BaseException]"
| "mro RequestException = [RequestException, PrawcoreException, Exception, BaseException]"
| "mro ResponseException = [ResponseException, PrawcoreException, Exception, BaseException]"
| "mro BadRequest = [BadRequest, ResponseException, PrawcoreException, Exception, BaseException]"
| "mro Forbidden = [Forbidden, ResponseException, PrawcoreException, Exception, BaseException]"
| "mro InvalidToken = [InvalidToken, ResponseException, PrawcoreException, Exception, BaseException]"
| "mro NotFound = [NotFound, ResponseException, PrawcoreException, Exception, BaseException]"
| "mro ServerError = [ServerError, ResponseException, PrawcoreException, Exception, BaseException]"
| "mro TooManyRequests = [TooManyRequests, ResponseException, PrawcoreException, Exception, BaseException]"

text \<open>\<open>except (K1, ..., Kn)\<close> matches an exception whose class has one of the \<open>Ki\<close> in its
  resolution order.\<close>

definition isinstance :: "exc \<Rightarrow> exc_class list \<Rightarrow> bool" where
  "isinstance e ks = list_ex (\<lambda>k. k \<in> set (mro (cls e))) ks"

section \<open>The backoff arithmetic of \<open>stream_reddit_activity\<close>\<close>

text \<open>
  Lines 151 and 152 compute with Python floats, which are IEEE 754 binary64 numbers. A
  finite double is a rational \<open>m * 2^e\<close> with \<open>|m| < 2^53\<close> and \<open>e \<ge> -1074\<close>; the model
  carries the exact value of a double as a \<open>rat\<close> and rounds the exact result of every
  float operation to the nearest double, a tie going to the even significand. Results
  of magnitude \<open>2^1024\<close> and beyond, which would be infinities, do not arise here: every
  operand of lines 151 and 152 is a few hundred at most.
\<close>

text \<open>The integer nearest to \<open>n / d\<close> for \<open>d > 0\<close>, a tie going to the even one.\<close>

definition round_half_even :: "int \<Rightarrow> int \<Rightarrow> int" where
  "round_half_even n d =
     (let f = n div d; r = n mod d
      in if 2 * r < d then f else if d < 2 * r then f + 1 else if even f then f else f + 1)"

text \<open>
  How often \<open>n / d\<close> is doubled until it reaches \<open>2^52\<close>, at most \<open>k\<close> times, and how often
  it is halved until it is below \<open>2^53\<close>, at most \<open>k\<close> times.
\<close>

fun doublings :: "nat \<Rightarrow> int \<Rightarrow> int \<Rightarrow> nat" where
  "doublings 0 n d = 0"
| "doublings (Suc k) n d = (if 2 ^ 52 * d \<le> n then 0 else Suc (doublings k (2 * n) d))"

fun halvings :: "nat \<Rightarrow> int \<Rightarrow> int \<Rightarrow> nat" where
  "halvings 0 n d = 0"
| "halvings (Suc k) n d = (if n < 2 ^ 53 * d then 0 else Suc (halvings k n (2 * d)))"

text \<open>
  The double nearest to \<open>x\<close>. Below \<open>2^53\<close> the spacing of the doubles around \<open>|x|\<close> is
  \<open>2^-u\<close>, where \<open>u\<close> doublings bring \<open>|x|\<close> to \<open>2^52\<close> or \<open>u\<close> is 1074, the spacing of the
  subnormal numbers; from \<open>2^53\<close> on the spacing is \<open>2^h\<close>, where \<open>h\<close> halvings bring
  \<open>|x|\<close> below \<open>2^53\<close>.
\<close>

definition round_double :: "rat \<Rightarrow> rat" where
  "round_double x =
     (if x = 0 then 0
      else case quotient_of \<bar>x\<bar> of (n, d) \<Rightarrow>
        if n < 2 ^ 53 * d
        then (let u = doublings 1074 n d
              in sgn x * (of_int (round_half_even (n * 2 ^ u) d) / of_int (2 ^ u)))
        else (let h = halvings 971 n d
              in sgn x * of_int (round_half_even n (d * 2 ^ h) * 2 ^ h)))"

text \<open>Float addition and multiplication, and the conversion of an \<open>int\<close> operand.\<close>

definition float_add :: "rat \<Rightarrow> rat \<Rightarrow> rat" where
  "float_add x y = round_double (x + y)"

definition float_mul :: "rat \<Rightarrow> rat \<Rightarrow> rat" where
  "float_mul x y = round_double (x * y)"

definition float_of_int :: "int \<Rightarrow> rat" where
  "float_of_int n = round_double (of_int n)"

text \<open>\<open>int(x)\<close> truncates towards zero.\<close>

definition py_int :: "rat \<Rightarrow> int" where
  "py_int x = (if 0 \<le> x then \<lfloor>x\<rfloor> else \<lceil>x\<rceil>)"

text \<open>
  \<open>x % 1\<close> on floats: the exact remainder \<open>fmod(x, 1.0)\<close>, which has the sign of \<open>x\<close>, and
  \<open>1.0\<close> added to it, in float arithmetic, when it is negative.
\<close>

definition py_mod1 :: "rat \<Rightarrow> rat" where
  "py_mod1 x = (let m = x - of_int (py_int x) in if m < 0 then float_add m 1 else m)"

definition max_backoff_seconds :: int where
  "max_backoff_seconds = 180"

text \<open>Line 151: \<open>jitter = 0.5 + (time.time() % 1) * 0.5\<close>, from the clock reading \<open>t\<close>.\<close>

definition jitter :: "rat \<Rightarrow> rat" where
  "jitter t = float_add (1/2) (float_mul (py_mod1 t) (1/2))"

text \<open>Line 152: \<open>sleep_for = min(max_backoff_seconds, int(backoff_seconds * (1.5 + jitter)))\<close>.\<close>

definition sleep_for :: "int \<Rightarrow> rat \<Rightarrow> int" where
  "sleep_for backoff t =
     min max_backoff_seconds
       (py_int (float_mul (float_of_int backoff) (float_add (3/2) (jitter t))))"

text \<open>Line 155: \<open>backoff_seconds = min(max_backoff_seconds, max(5, sleep_for * 2))\<close>.\<close>

definition next_backoff :: "int \<Rightarrow> int" where
  "next_backoff s = min max_backoff_seconds (max 5 (s * 2))"

section \<open>The generator \<open>stream_reddit_activity\<close> as a state machine\<close>

text \<open>
  The generator is suspended either in a call to the outside world (the PRAW client, an
  iterator, the clock, \<open>time.sleep\<close>) or at a \<open>yield\<close>. A control point names the pending
  call by its source line; the values the streams hand over are Python values, \<open>None\<close>
  being the pause marker of a stream opened with \<open>pause_after=0\<close>.
\<close>

datatype 'i pc =
    CallSubreddit string        \<comment> \<open>line 97: \<open>reddit.subreddit(subreddit_string)\<close>\<close>
  | OpenSubmissions             \<comment> \<open>line 108: \<open>subreddit.stream.submissions(...)\<close>\<close>
  | OpenComments                \<comment> \<open>line 109: \<open>subreddit.stream.comments(...)\<close>\<close>
  | NextSubmission              \<comment> \<open>line 117: the \<open>for\<close> loop asks \<open>submissions_stream\<close> for its next value\<close>
  | YieldSubmission "'i option" \<comment> \<open>line 120: \<open>yield submission\<close>\<close>
  | NextComment                 \<comment> \<open>line 123: the \<open>for\<close> loop asks \<open>comments_stream\<close> for its next value\<close>
  | YieldComment "'i option"    \<comment> \<open>line 126: \<open>yield comment\<close>\<close>
  | IdleSleep                   \<comment> \<open>line 129: \<open>time.sleep(0.5)\<close>\<close>
  | ReadClock                   \<comment> \<open>line 151: \<open>time.time()\<close>\<close>
  | BackoffSleep int            \<comment> \<open>line 154: \<open>time.sleep(sleep_for)\<close>\<close>
  | FixedSleep                  \<comment> \<open>line 160: \<open>time.sleep(15)\<close>\<close>
  | Raised exc                  \<comment> \<open>the generator has ended by raising to its consumer\<close>

record 'i state =
  pc :: "'i pc"
  backoff_seconds :: int

text \<open>What the outside world answers to the pending call or \<open>yield\<close>.\<close>

datatype 'i event =
    Returns                 \<comment> \<open>the call returned (its value is not inspected)\<close>
  | Next "'i option"        \<comment> \<open>the stream handed over a value, \<open>None\<close> when it has nothing now\<close>
  | StopIteration           \<comment> \<open>the stream is exhausted\<close>
  | Time rat                \<comment> \<open>\<open>time.time()\<close> returned this reading\<close>
  | Resume                  \<comment> \<open>the consumer asks for the next item\<close>
  | Raises exc              \<comment> \<open>the call raised, or the consumer threw into the \<open>yield\<close>\<close>

text \<open>The \<open>except\<close> clauses of lines 131 to 156, tried in the order written.\<close>

datatype clause =
    ExceptKeyboardInterrupt
  | ExceptAccess
  | ExceptAuth
  | ExceptTransient
  | ExceptException
  | Uncaught

definition except_clause :: "exc \<Rightarrow> clause" where
  "except_clause e =
     (if isinstance e [KeyboardInterrupt] then ExceptKeyboardInterrupt
      else if isinstance e [Forbidden, NotFound] then ExceptAccess
      else if isinstance e [OAuthException, InvalidToken] then ExceptAuth
      else if isinstance e [RequestException, ResponseException, ServerError] then ExceptTransient
      else if isinstance e [Exception] then ExceptException
      else Uncaught)"

text \<open>
  An exception inside the \<open>try\<close> block: the first three clauses log and re-raise, the
  transient clause goes on to read the clock, the catch-all goes on to \<open>time.sleep(15)\<close>;
  an exception no clause matches passes on to the consumer.
\<close>

definition handle :: "'i state \<Rightarrow> exc \<Rightarrow> 'i state" where
  "handle s e =
     (case except_clause e of
        ExceptKeyboardInterrupt \<Rightarrow> s\<lparr>pc := Raised e\<rparr>
      | ExceptAccess \<Rightarrow> s\<lparr>pc := Raised e\<rparr>
      | ExceptAuth \<Rightarrow> s\<lparr>pc := Raised e\<rparr>
      | ExceptTransient \<Rightarrow> s\<lparr>pc := ReadClock\<rparr>
      | ExceptException \<Rightarrow> s\<lparr>pc := FixedSleep\<rparr>
      | Uncaught \<Rightarrow> s\<lparr>pc := Raised e\<rparr>)"

text \<open>
  One step: the answer \<open>ev\<close> arrives at the pending control point. \<open>None\<close> means that
  this answer cannot arrive there (a stream value as the answer to a sleep, say).
  Calls made outside the \<open>try\<close> block (line 97, and the calls inside the handlers)
  let every exception through.
\<close>

definition step :: "'i state \<Rightarrow> 'i event \<Rightarrow> 'i state option" where
  "step s ev =
     (case pc s of
        CallSubreddit tok \<Rightarrow>
          (case ev of
             Returns \<Rightarrow> Some (s\<lparr>pc := OpenSubmissions, backoff_seconds := 5\<rparr>)
           | Raises e \<Rightarrow> Some (s\<lparr>pc := Raised e\<rparr>)
           | _ \<Rightarrow> None)
      | OpenSubmissions \<Rightarrow>
          (case ev of
             Returns \<Rightarrow> Some (s\<lparr>pc := OpenComments\<rparr>)
           | Raises e \<Rightarrow> Some (handle s e)
           | _ \<Rightarrow> None)
      | OpenComments \<Rightarrow>
          (case ev of
             Returns \<Rightarrow> Some (s\<lparr>pc := NextSubmission, backoff_seconds := 5\<rparr>)
           | Raises e \<Rightarrow> Some (handle s e)
           | _ \<Rightarrow> None)
      | NextSubmission \<Rightarrow>
          (case ev of
             Next v \<Rightarrow> Some (if v = None then s\<lparr>pc := NextComment\<rparr>
                              else s\<lparr>pc := YieldSubmission v\<rparr>)
           | StopIteration \<Rightarrow> Some (s\<lparr>pc := NextComment\<rparr>)
           | Raises e \<Rightarrow> Some (handle s e)
           | _ \<Rightarrow> None)
      | YieldSubmission v \<Rightarrow>
          (case ev of
             Resume \<Rightarrow> Some (s\<lparr>pc := NextSubmission\<rparr>)
           | Raises e \<Rightarrow> Some (handle s e)
           | _ \<Rightarrow> None)
      | NextComment \<Rightarrow>
          (case ev of
             Next v \<Rightarrow> Some (if v = None then s\<lparr>pc := IdleSleep\<rparr>
                              else s\<lparr>pc := YieldComment v\<rparr>)
           | StopIteration \<Rightarrow> Some (s\<lparr>pc := IdleSleep\<rparr>)
           | Raises e \<Rightarrow> Some (handle s e)
           | _ \<Rightarrow> None)
      | YieldComment v \<Rightarrow>
          (case ev of
             Resume \<Rightarrow> Some (s\<lparr>pc := NextComment\<rparr>)
           | Raises e \<Rightarrow> Some (handle s e)
           | _ \<Rightarrow> None)
      | IdleSleep \<Rightarrow>
          (case ev of
             Returns \<Rightarrow> Some (s\<lparr>pc := NextSubmission\<rparr>)
           | Raises e \<Rightarrow> Some (handle s e)
           | _ \<Rightarrow> None)
      | ReadClock \<Rightarrow>
          (case ev of
             Time t \<Rightarrow> Some (s\<lparr>pc := BackoffSleep (sleep_for (backoff_seconds s) t)\<rparr>)
           | Raises e \<Rightarrow> Some (s\<lparr>pc := Raised e\<rparr>)
           | _ \<Rightarrow> None)
      | BackoffSleep n \<Rightarrow>
          (case ev of
             Returns \<Rightarrow> Some (s\<lparr>pc := OpenSubmissions, backoff_seconds := next_backoff n\<rparr>)
           | Raises e \<Rightarrow> Some (s\<lparr>pc := Raised e\<rparr>)
           | _ \<Rightarrow> None)
      | FixedSleep \<Rightarrow>
          (case ev of
             Returns \<Rightarrow> Some (s\<lparr>pc := OpenSubmissions\<rparr>)
           | Raises e \<Rightarrow> Some (s\<lparr>pc := Raised e\<rparr>)
           | _ \<Rightarrow> None)
      | Raised e \<Rightarrow> None)"

text \<open>
  A run: the states the generator passes through while the outside world gives the
  answers \<open>evs\<close>, one after the other. The run stops where an answer cannot arrive, and
  for good once the generator has raised.
\<close>

fun run :: "'i state \<Rightarrow> 'i event list \<Rightarrow> 'i state list" where
  "run s [] = []"
| "run s (ev # evs) = (case step s ev of None \<Rightarrow> [] | Some s' \<Rightarrow> s' # run s' evs)"

text \<open>The control points of the \<open>try\<close> block, lines 103 to 129.\<close>

fun in_try :: "'i pc \<Rightarrow> bool" where
  "in_try OpenSubmissions = True"
| "in_try OpenComments = True"
| "in_try NextSubmission = True"
| "in_try (YieldSubmission v) = True"
| "in_try NextComment = True"
| "in_try (YieldComment v) = True"
| "in_try IdleSleep = True"
| "in_try _ = False"

text \<open>The argument of the \<open>time.sleep\<close> call pending at a control point, in seconds.\<close>

fun sleeping :: "'i pc \<Rightarrow> rat option" where
  "sleeping IdleSleep = Some (1/2)"
| "sleeping (BackoffSleep n) = Some (of_int n)"
| "sleeping FixedSleep = Some 15"
| "sleeping _ = None"

text \<open>The end state of a run, \<open>None\<close> when some answer cannot arrive.\<close>

fun exec :: "'i state \<Rightarrow> 'i event list \<Rightarrow> 'i state option" where
  "exec s [] = Some s"
| "exec s (ev # evs) = (case step s ev of None \<Rightarrow> None | Some s' \<Rightarrow> exec s' evs)"

fun terminated :: "'i pc \<Rightarrow> bool" where
  "terminated (Raised e) = True"
| "terminated _ = False"

text \<open>The control points of the inner \<open>while True\<close> loop, lines 115 to 129.\<close>

fun streaming :: "'i pc \<Rightarrow> bool" where
  "streaming NextSubmission = True"
| "streaming (YieldSubmission v) = True"
| "streaming NextComment = True"
| "streaming (YieldComment v) = True"
| "streaming IdleSleep = True"
| "streaming _ = False"

fun raises :: "'i event \<Rightarrow> bool" where
  "raises (Raises e) = True"
| "raises _ = False"

subsection \<open>What a run shows to the outside\<close>

text \<open>The Python value handed to the consumer at a \<open>yield\<close>.\<close>

fun yielded :: "'i pc \<Rightarrow> 'i option option" where
  "yielded (YieldSubmission v) = Some v"
| "yielded (YieldComment v) = Some v"
| "yielded _ = None"

definition yields :: "'i state list \<Rightarrow> 'i option list" where
  "yields tr = List.map_filter (\<lambda>s. yielded (pc s)) tr"

text \<open>The durations of all \<open>time.sleep\<close> calls of a run, and those of line 154 alone.\<close>

definition sleeps :: "'i state list \<Rightarrow> rat list" where
  "sleeps tr = List.map_filter (\<lambda>s. sleeping (pc s)) tr"


subsection \<open>Scripts of the outside world\<close>

text \<open>
  A stream that has the items \<open>xs\<close> available and then nothing: it hands over each item,
  the consumer resumes the generator after each \<open>yield\<close>, and then it hands over \<open>None\<close>.
\<close>

definition answers :: "'i list \<Rightarrow> 'i event list" where
  "answers xs = concat (map (\<lambda>x. [Next (Some x), Resume]) xs) @ [Next None]"


section \<open>The subreddit string\<close>

text \<open>
  \<open>str.isspace\<close> on the code points below 256: the ASCII controls 9 to 13 and 28 to 31,
  the space, NEL (133) and the no-break space (160).
\<close>

definition isspace :: "char \<Rightarrow> bool" where
  "isspace c = (let n = (of_char c :: nat) in
     (9 \<le> n \<and> n \<le> 13) \<or> (28 \<le> n \<and> n \<le> 32) \<or> n = 133 \<or> n = 160)"

text \<open>
  \<open>s.strip()\<close>: scan from the left to the first index \<open>i\<close> that holds no whitespace, from
  the right down to \<open>i\<close> to the end \<open>j\<close> of the last such index, and return \<open>s[i:j]\<close>.
\<close>

definition py_strip :: "string \<Rightarrow> string" where
  "py_strip s =
     (let i = length (takeWhile isspace s);
          j = length s - length (takeWhile isspace (rev (drop i s)))
      in take (j - i) (drop i s))"

text \<open>\<open>sep.join(xs)\<close>.\<close>

fun py_join :: "string \<Rightarrow> string list \<Rightarrow> string" where
  "py_join sep [] = []"
| "py_join sep [x] = x"
| "py_join sep (x # xs) = x @ sep @ py_join sep xs"

text \<open>Line 94: \<open>subreddit_string = '+'.join(s.strip() for s in sub_reddits)\<close>.\<close>

definition subreddit_string :: "string list \<Rightarrow> string" where
  "subreddit_string sub_reddits = py_join ''+'' (map py_strip sub_reddits)"

text \<open>
  The generator when its body starts to run: line 94 has computed the string and line 97
  is passing it to \<open>reddit.subreddit\<close>. \<open>backoff_seconds\<close> is assigned at line 100 only;
  the field holds 0 until then.
\<close>

definition stream_reddit_activity :: "string list \<Rightarrow> 'i state" where
  "stream_reddit_activity sub_reddits =
     \<lparr>pc = CallSubreddit (subreddit_string sub_reddits), backoff_seconds = 0\<rparr>"

subsection \<open>The specification's wording\<close>

text \<open>
  A name trimmed: its leading whitespace dropped, and its trailing whitespace dropped.
  Names joined: the first name, then each further name after a separator.
\<close>

definition trimmed :: "string \<Rightarrow> string" where
  "trimmed s = rev (dropWhile isspace (rev (dropWhile isspace s)))"

definition joined :: "string \<Rightarrow> string list \<Rightarrow> string" where
  "joined sep xs = (case xs of [] \<Rightarrow> [] | x # rest \<Rightarrow> foldl (\<lambda>acc y. acc @ sep @ y) x rest)"

section \<open>\<open>initialize_reddit\<close>\<close>

text \<open>The keyword arguments of \<open>praw.Reddit\<close>; \<open>os.getenv\<close> gives \<open>None\<close> for an unset variable.\<close>

record credentials =
  client_id :: "string option"
  client_secret :: "string option"
  user_agent :: "string option"
  username :: "string option"
  password :: "string option"

text \<open>The calls \<open>initialize_reddit\<close> makes into PRAW, in order.\<close>

datatype call = PrawReddit credentials | UserMe

text \<open>Lines 38 to 44. No statement of the function reads this list.\<close>

definition required_env_vars :: "string list" where
  "required_env_vars =
     [''REDDIT_CLIENT_ID'', ''REDDIT_CLIENT_SECRET'', ''REDDIT_USER_AGENT'',
      ''REDDIT_USERNAME'', ''REDDIT_PASSWORD'']"

definition credentials_of :: "(string \<rightharpoonup> string) \<Rightarrow> credentials" where
  "credentials_of getenv =
     \<lparr>client_id = getenv ''REDDIT_CLIENT_ID'',
      client_secret = getenv ''REDDIT_CLIENT_SECRET'',
      user_agent = getenv ''REDDIT_USER_AGENT'',
      username = getenv ''REDDIT_USERNAME'',
      password = getenv ''REDDIT_PASSWORD''\<rparr>"

text \<open>
  \<open>getenv\<close> is the process environment after \<open>load_dotenv()\<close>; \<open>Reddit\<close> and \<open>user_me\<close>
  are PRAW's constructor and \<open>reddit.user.me()\<close>, each returning or raising. The result
  is the list of calls made and the client returned or the exception raised. The
  constructor is called outside the \<open>try\<close>, so whatever it raises passes through.
\<close>

definition initialize_reddit ::
  "(string \<rightharpoonup> string) \<Rightarrow> (credentials \<Rightarrow> exc + 'r) \<Rightarrow> ('r \<Rightarrow> exc + 'u)
     \<Rightarrow> call list \<times> (exc + 'r)"
where
  "initialize_reddit getenv Reddit user_me =
     (let creds = credentials_of getenv in
      case Reddit creds of
        Inl e \<Rightarrow> ([PrawReddit creds], Inl e)
      | Inr reddit \<Rightarrow>
          (case user_me reddit of
             Inr me \<Rightarrow> ([PrawReddit creds, UserMe], Inr reddit)
           | Inl e \<Rightarrow>
               ([PrawReddit creds, UserMe],
                if isinstance e [OAuthException, InvalidToken, Forbidden, BadRequest,
                                 ResponseException, RequestException, ServerError]
                then Inl (Exc RuntimeError
                            (''Failed to verify Reddit authentication: '' @ detail e) (Some e))
                else Inl e)))"

text \<open>An environment in which only \<open>REDDIT_PASSWORD\<close> is unset.\<close>

definition env_without_password :: "string \<rightharpoonup> string" where
  "env_without_password =
     [''REDDIT_CLIENT_ID'' \<mapsto> ''id'', ''REDDIT_CLIENT_SECRET'' \<mapsto> ''secret'',
      ''REDDIT_USER_AGENT'' \<mapsto> ''listener/1.0'', ''REDDIT_USERNAME'' \<mapsto> ''alice'']"

section \<open>Properties of the state machine\<close>

subsection \<open>Runs\<close>

lemma step_Raised: "pc s = Raised e \<Longrightarrow> step s ev = None"
  by (simp add: step_def)

lemma run_Raised: "pc s = Raised e \<Longrightarrow> run s evs = []"
  by (cases evs) (simp_all add: step_Raised)

lemma step_in_try_Raises: "in_try (pc s) \<Longrightarrow> step s (Raises e) = Some (handle s e)"
  by (cases "pc s") (simp_all add: step_def)

lemma run_append:
  "run s (evs @ evs') =
     (case exec s evs of None \<Rightarrow> run s evs | Some s' \<Rightarrow> run s evs @ run s' evs')"
  by (induction evs arbitrary: s) (auto split: option.splits)

lemma exec_append:
  "exec s (evs @ evs') = (case exec s evs of None \<Rightarrow> None | Some s' \<Rightarrow> exec s' evs')"
  by (induction evs arbitrary: s) (auto split: option.splits)

lemma yields_append: "yields (xs @ ys) = yields xs @ yields ys"
  by (induction xs) (simp_all add: yields_def split: option.splits)


lemma pc_update_same: "pc s = p \<Longrightarrow> s\<lparr>pc := p\<rparr> = s"
  by simp

lemma streaming_in_try: "streaming p \<Longrightarrow> in_try p"
  by (cases p) simp_all

subsection \<open>Fatal errors\<close>

text \<open>
  Claim C4. An access error (\<open>Forbidden\<close>, \<open>NotFound\<close>) or an authentication error
  (\<open>OAuthException\<close>, \<open>InvalidToken\<close>) raised at any control point of the \<open>try\<close> block,
  while the streams are opened or read, ends the generator at once: its next state is
  the error raised to the consumer, with the delay untouched, and whatever the outside
  world would answer afterwards there is no further state, so no sleep, no backoff
  computation and no reconnect follows.
\<close>

theorem access_and_auth_errors_reraised:
  assumes "in_try (pc s)"
    and "cls e \<in> {Forbidden, NotFound, OAuthException, InvalidToken}"
  shows "run s (Raises e # evs) = [s\<lparr>pc := Raised e\<rparr>]"
proof -
  from assms(2) have "except_clause e = ExceptAccess \<or> except_clause e = ExceptAuth"
    by (auto simp add: except_clause_def isinstance_def)
  then have "handle s e = s\<lparr>pc := Raised e\<rparr>"
    by (auto simp add: handle_def)
  with assms(1) have "step s (Raises e) = Some (s\<lparr>pc := Raised e\<rparr>)"
    by (simp add: step_in_try_Raises)
  then show ?thesis
    by (simp add: run_Raised)
qed

theorem access_and_auth_errors_reraised_witness:
  "run \<lparr>pc = NextComment, backoff_seconds = 5\<rparr>
     [Raises (Exc Forbidden ''received 403 HTTP response'' None), Returns, Returns :: nat event]
   = [\<lparr>pc = Raised (Exc Forbidden ''received 403 HTTP response'' None), backoff_seconds = 5\<rparr>]"
  using access_and_auth_errors_reraised
    [of "\<lparr>pc = NextComment, backoff_seconds = 5\<rparr>"
        "Exc Forbidden ''received 403 HTTP response'' None" "[Returns, Returns]"]
  by (simp del: run.simps)

subsection \<open>Cancellation\<close>

text \<open>
  Claim C6. A \<open>KeyboardInterrupt\<close> raised at any control point at which the generator
  has not ended (opening or reading a stream, at a \<open>yield\<close>, in the idle sleep, and
  also in a handler's clock reading or sleep) ends the generator with that very
  exception raised to the consumer; the run has no state after it, so no backoff sleep
  and no reconnect follows.
\<close>

theorem keyboard_interrupt_propagates:
  assumes "\<not> terminated (pc s)" and "cls e = KeyboardInterrupt"
  shows "run s (Raises e # evs) = [s\<lparr>pc := Raised e\<rparr>]"
proof -
  have "step s (Raises e) = Some (s\<lparr>pc := Raised e\<rparr>)"
    using assms
    by (cases "pc s") (simp_all add: step_def handle_def except_clause_def isinstance_def)
  then show ?thesis by (simp add: run_Raised)
qed

theorem keyboard_interrupt_propagates_witness:
  "run \<lparr>pc = IdleSleep, backoff_seconds = 5\<rparr>
     [Raises (Exc KeyboardInterrupt [] None), Returns, Next (Some 1) :: nat event]
   = [\<lparr>pc = Raised (Exc KeyboardInterrupt [] None), backoff_seconds = 5\<rparr>]"
  using keyboard_interrupt_propagates
    [of "\<lparr>pc = IdleSleep, backoff_seconds = 5\<rparr>"
        "Exc KeyboardInterrupt [] None" "[Returns, Next (Some (1::nat))]"]
  by (simp del: run.simps)

subsection \<open>Unexpected errors\<close>

text \<open>
  Claim C8. An exception that only the catch-all clause \<open>except Exception\<close> matches,
  raised at a control point of the \<open>try\<close> block, is answered by one sleep of 15 seconds,
  after which the generator is back at opening the submissions stream;
  \<open>backoff_seconds\<close> has the value it had before in both states.
\<close>

theorem unexpected_error_fixed_delay:
  assumes "in_try (pc s)" and "except_clause e = ExceptException"
  shows "run s [Raises e, Returns] = [s\<lparr>pc := FixedSleep\<rparr>, s\<lparr>pc := OpenSubmissions\<rparr>]
     \<and> sleeps (run s [Raises e, Returns]) = [15]
     \<and> map backoff_seconds (run s [Raises e, Returns]) = [backoff_seconds s, backoff_seconds s]"
proof -
  have 1: "step s (Raises e) = Some (s\<lparr>pc := FixedSleep\<rparr>)"
    using assms by (simp add: step_in_try_Raises handle_def)
  have 2: "step (s\<lparr>pc := FixedSleep\<rparr>) Returns = Some (s\<lparr>pc := OpenSubmissions\<rparr>)"
    by (simp add: step_def)
  show ?thesis
    by (simp add: 1 2 sleeps_def)
qed

theorem unexpected_error_fixed_delay_witness:
  "run \<lparr>pc = NextSubmission, backoff_seconds = 5\<rparr>
      [Raises (Exc ValueError ''bad payload'' None), Returns :: nat event]
     = [\<lparr>pc = FixedSleep, backoff_seconds = 5\<rparr>, \<lparr>pc = OpenSubmissions, backoff_seconds = 5\<rparr>]
   \<and> sleeps (run \<lparr>pc = NextSubmission, backoff_seconds = 5\<rparr>
      [Raises (Exc ValueError ''bad payload'' None), Returns :: nat event]) = [15]
   \<and> map backoff_seconds (run \<lparr>pc = NextSubmission, backoff_seconds = 5\<rparr>
      [Raises (Exc ValueError ''bad payload'' None), Returns :: nat event]) = [5, 5]"
proof -
  have t: "in_try (pc \<lparr>pc = NextSubmission :: nat pc, backoff_seconds = 5\<rparr>)"
    by simp
  have c: "except_clause (Exc ValueError ''bad payload'' None) = ExceptException"
    by (simp add: except_clause_def isinstance_def)
  show ?thesis
    using unexpected_error_fixed_delay [OF t c] by (simp add: sleeps_def del: run.simps)
qed

subsection \<open>What is yielded\<close>

lemma step_yielded: "step s ev = Some s' \<Longrightarrow> yielded (pc s') \<noteq> Some None"
  by (cases "pc s"; cases ev)
     (auto simp add: step_def handle_def split: clause.splits if_splits)

text \<open>
  Claim C10. In every run of the generator, from any state and under any answers of
  the outside world, no value handed to the consumer at a \<open>yield\<close> is \<open>None\<close>: a \<open>None\<close>
  from a stream ends that stream's \<open>for\<close> loop instead.
\<close>

theorem never_yields_None: "None \<notin> set (yields (run s evs))"
proof (induction evs arbitrary: s)
  case Nil
  show ?case by (simp add: yields_def)
next
  case (Cons ev evs)
  show ?case
  proof (cases "step s ev")
    case None
    then show ?thesis by (simp add: yields_def)
  next
    case (Some s')
    from Cons.IH [of s'] have "None \<notin> set (yields (run s' evs))" .
    moreover from Some have "yielded (pc s') \<noteq> Some None" by (rule step_yielded)
    ultimately show ?thesis using Some
      by (auto simp add: yields_def split: option.splits)
  qed
qed

theorem never_yields_None_witness:
  "None \<notin> set (yields (run (stream_reddit_activity [''learnpython''])
      [Returns, Returns, Returns, Next (Some (7::nat)), Resume, Next None, Next None, Returns]))"
  using never_yields_None
    [of "stream_reddit_activity [''learnpython'']"
        "[Returns, Returns, Returns, Next (Some (7::nat)), Resume, Next None, Next None, Returns]"]
  by simp

subsection \<open>One drain round\<close>

lemma exec_submissions:
  "pc s = NextSubmission \<Longrightarrow> exec s (answers ps) = Some (s\<lparr>pc := NextComment\<rparr>)"
  by (induction ps) (simp_all add: answers_def step_def pc_update_same)

lemma yields_submissions:
  "pc s = NextSubmission \<Longrightarrow> yields (run s (answers ps)) = map Some ps"
  by (induction ps) (simp_all add: answers_def step_def yields_def pc_update_same)

lemma exec_comments:
  "pc s = NextComment \<Longrightarrow> exec s (answers cs) = Some (s\<lparr>pc := IdleSleep\<rparr>)"
  by (induction cs) (simp_all add: answers_def step_def pc_update_same)

lemma yields_comments:
  "pc s = NextComment \<Longrightarrow> yields (run s (answers cs)) = map Some cs"
  by (induction cs) (simp_all add: answers_def step_def yields_def pc_update_same)

text \<open>
  Claim C3. At the top of the inner loop, with the submissions stream holding the items
  \<open>ps\<close> and then nothing and the comments stream holding \<open>cs\<close> and then nothing, one
  round yields exactly the submissions in stream order followed by the comments in
  stream order, and ends in the idle sleep of line 129. For \<open>[p1, p2]\<close> and \<open>[c1]\<close> that
  is \<open>[p1, p2, c1]\<close>.
\<close>

theorem drain_round_submissions_first:
  assumes "pc s = NextSubmission"
  shows "yields (run s (answers ps @ answers cs)) = map Some ps @ map Some cs
     \<and> exec s (answers ps @ answers cs) = Some (s\<lparr>pc := IdleSleep\<rparr>)"
  using assms
  by (simp add: run_append exec_append exec_submissions yields_append
        yields_submissions exec_comments yields_comments)

theorem drain_round_submissions_first_witness:
  "yields (run \<lparr>pc = NextSubmission, backoff_seconds = 5\<rparr>
       [Next (Some ''p1''), Resume, Next (Some ''p2''), Resume, Next None,
        Next (Some ''c1''), Resume, Next None])
     = [Some ''p1'', Some ''p2'', Some ''c1'']
   \<and> exec \<lparr>pc = NextSubmission, backoff_seconds = 5\<rparr>
       [Next (Some ''p1''), Resume, Next (Some ''p2''), Resume, Next None,
        Next (Some ''c1''), Resume, Next None]
     = Some \<lparr>pc = IdleSleep, backoff_seconds = 5\<rparr>"
  using drain_round_submissions_first
    [of "\<lparr>pc = NextSubmission, backoff_seconds = 5\<rparr>" "[''p1'', ''p2'']" "[''c1'']"]
  by (simp add: answers_def del: run.simps exec.simps)

subsection \<open>The reset on connect\<close>

lemma step_streaming:
  "streaming (pc s) \<Longrightarrow> \<not> raises ev \<Longrightarrow> step s ev = Some s' \<Longrightarrow>
     streaming (pc s') \<and> backoff_seconds s' = backoff_seconds s"
  by (cases "pc s"; cases ev) (auto simp add: step_def split: if_splits)

lemma exec_streaming:
  "streaming (pc s) \<Longrightarrow> list_all (\<lambda>ev. \<not> raises ev) evs \<Longrightarrow> exec s evs = Some s' \<Longrightarrow>
     streaming (pc s') \<and> backoff_seconds s' = backoff_seconds s"
proof (induction evs arbitrary: s)
  case Nil
  then show ?case by simp
next
  case (Cons ev evs)
  from Cons.prems(3) obtain s1 where s1: "step s ev = Some s1" and e: "exec s1 evs = Some s'"
    by (auto split: option.splits)
  from Cons.prems(1,2) s1 have "streaming (pc s1) \<and> backoff_seconds s1 = backoff_seconds s"
    using step_streaming [of s ev s1] by simp
  moreover from Cons.prems(2) have "list_all (\<lambda>ev. \<not> raises ev) evs" by simp
  ultimately show ?case using Cons.IH [of s1] e by simp
qed

text \<open>
  Claim C7. Whatever \<open>backoff_seconds\<close> was, once both streams have been opened without
  error it is 5 (line 112); it is still 5 in the state \<open>s'\<close> reached after any answers
  \<open>evs\<close> that raise nothing, and a transient error raised there has its sleep computed
  from 5.
\<close>

theorem connect_resets_backoff:
  assumes "pc s = OpenSubmissions"
    and "list_all (\<lambda>ev. \<not> raises ev) evs"
    and "exec s (Returns # Returns # evs) = Some s'"
    and "except_clause e = ExceptTransient"
  shows "run s [Returns, Returns]
       = [s\<lparr>pc := OpenComments\<rparr>, s\<lparr>pc := NextSubmission, backoff_seconds := 5\<rparr>]
     \<and> backoff_seconds s' = 5
     \<and> run s' [Raises e, Time t]
       = [s'\<lparr>pc := ReadClock\<rparr>, s'\<lparr>pc := BackoffSleep (sleep_for 5 t)\<rparr>]"
proof -
  let ?s2 = "s\<lparr>pc := NextSubmission, backoff_seconds := 5\<rparr>"
  have 1: "step s Returns = Some (s\<lparr>pc := OpenComments\<rparr>)"
    using assms(1) by (simp add: step_def)
  have 2: "step (s\<lparr>pc := OpenComments\<rparr>) Returns = Some ?s2"
    by (simp add: step_def)
  from assms(3) have 3: "exec ?s2 evs = Some s'"
    by (simp add: 1 2)
  have "streaming (pc ?s2)" by simp
  from exec_streaming [OF this assms(2) 3]
  have 4: "streaming (pc s')" and 5: "backoff_seconds s' = 5" by simp_all
  from 4 have "in_try (pc s')" by (rule streaming_in_try)
  then have 6: "step s' (Raises e) = Some (s'\<lparr>pc := ReadClock\<rparr>)"
    using assms(4) by (simp add: step_in_try_Raises handle_def)
  have 7: "step (s'\<lparr>pc := ReadClock\<rparr>) (Time t)
      = Some (s'\<lparr>pc := BackoffSleep (sleep_for 5 t)\<rparr>)"
    using 5 by (simp add: step_def)
  show ?thesis by (simp add: 1 2 5 6 7)
qed

theorem connect_resets_backoff_witness:
  "run \<lparr>pc = OpenSubmissions, backoff_seconds = 88\<rparr> [Returns, Returns :: nat event]
       = [\<lparr>pc = OpenComments, backoff_seconds = 88\<rparr>, \<lparr>pc = NextSubmission, backoff_seconds = 5\<rparr>]
   \<and> backoff_seconds \<lparr>pc = IdleSleep :: nat pc, backoff_seconds = 5\<rparr> = 5
   \<and> run \<lparr>pc = IdleSleep, backoff_seconds = 5\<rparr>
        [Raises (Exc ServerError ''received 503 HTTP response'' None), Time (3/4) :: nat event]
       = [\<lparr>pc = ReadClock, backoff_seconds = 5\<rparr>,
          \<lparr>pc = BackoffSleep (sleep_for 5 (3/4)), backoff_seconds = 5\<rparr>]"
proof -
  have p: "pc \<lparr>pc = OpenSubmissions :: nat pc, backoff_seconds = 88\<rparr> = OpenSubmissions"
    by simp
  have a: "list_all (\<lambda>ev. \<not> raises ev) [Next (Some 1), Resume, Next None, Next None :: nat event]"
    by simp
  have x: "exec \<lparr>pc = OpenSubmissions, backoff_seconds = 88\<rparr>
      (Returns # Returns # [Next (Some 1), Resume, Next None, Next None :: nat event])
      = Some \<lparr>pc = IdleSleep, backoff_seconds = 5\<rparr>"
    by (simp add: step_def)
  have c: "except_clause (Exc ServerError ''received 503 HTTP response'' None) = ExceptTransient"
    by (simp add: except_clause_def isinstance_def)
  show ?thesis
    using connect_resets_backoff [OF p a x c, of "3/4"] by (simp del: run.simps)
qed

subsection \<open>Rounding to a double\<close>







subsection \<open>Backoff after transient errors\<close>




















text \<open>The rounding on some doubles whose neighbours are known.\<close>

lemma round_double_one_tenth: "round_double (1/10) = 3602879701896397 / 36028797018963968"
  by code_simp

lemma round_double_large: "round_double (2 ^ 60 + 3 * 2 ^ 7) = 2 ^ 60 + 2 ^ 9"
  by code_simp

lemma sleep_for_of_three_tenths: "sleep_for 20 (5404319552844595 / 18014398509481984) = 43"
  by code_simp











section \<open>Properties of the subreddit string\<close>

lemma length_takeWhile_drop: "drop (length (takeWhile P xs)) xs = dropWhile P xs"
  by (induction xs) simp_all

lemma take_minus_takeWhile_rev:
  "take (length ys - length (takeWhile P (rev ys))) ys = rev (dropWhile P (rev ys))"
proof -
  have "rev ys = takeWhile P (rev ys) @ dropWhile P (rev ys)" by simp
  then have "ys = rev (dropWhile P (rev ys)) @ rev (takeWhile P (rev ys))"
    by (metis rev_append rev_rev_ident)
  then have "take (length ys - length (takeWhile P (rev ys))) ys
      = take (length (rev (dropWhile P (rev ys))))
          (rev (dropWhile P (rev ys)) @ rev (takeWhile P (rev ys)))"
    by (metis (no_types) add_diff_cancel_right' length_append length_rev)
  then show ?thesis by simp
qed

lemma py_strip_trimmed: "py_strip s = trimmed s"
proof -
  let ?i = "length (takeWhile isspace s)"
  let ?ys = "drop ?i s"
  have "length s - length (takeWhile isspace (rev ?ys)) - ?i
      = length ?ys - length (takeWhile isspace (rev ?ys))"
    by simp
  then have "py_strip s = take (length ?ys - length (takeWhile isspace (rev ?ys))) ?ys"
    by (simp add: py_strip_def Let_def)
  also have "\<dots> = rev (dropWhile isspace (rev ?ys))"
    by (rule take_minus_takeWhile_rev)
  finally show ?thesis by (simp add: trimmed_def length_takeWhile_drop)
qed

lemma foldl_join:
  "foldl (\<lambda>acc y. acc @ sep @ y) (a @ x) xs = a @ foldl (\<lambda>acc y. acc @ sep @ y) x xs"
  by (induction xs arbitrary: x) simp_all

lemma py_join_joined: "py_join sep xs = joined sep xs"
proof (induction sep xs rule: py_join.induct)
  case (3 sep x y ys)
  have "foldl (\<lambda>acc y. acc @ sep @ y) (x @ sep @ y) ys
      = x @ sep @ foldl (\<lambda>acc y. acc @ sep @ y) y ys"
    using foldl_join [of sep "x @ sep" y ys] by simp
  with 3 show ?case by (simp add: joined_def)
qed (simp_all add: joined_def)

text \<open>
  Claim C9. For every list of names, the string computed at line 94 and passed to
  \<open>reddit.subreddit\<close> at line 97 is the names, each trimmed of leading and trailing
  whitespace, joined by \<open>+\<close> in the order given.
\<close>

theorem subreddit_token_is_trimmed_names_joined:
  "pc (stream_reddit_activity names) = CallSubreddit (joined ''+'' (map trimmed names))
   \<and> subreddit_string names = joined ''+'' (map trimmed names)"
proof -
  have "py_strip = trimmed"
    by (rule ext) (rule py_strip_trimmed)
  then show ?thesis
    by (simp add: stream_reddit_activity_def subreddit_string_def py_join_joined)
qed

lemma subreddit_string_example:
  "subreddit_string ['' smallbusiness'', [CHR ''l'', CHR ''e'', CHR 0x0A], ''a b''] =
     ''smallbusiness+le+a b''"
  by code_simp

section \<open>Properties of \<open>initialize_reddit\<close>\<close>

lemma initialize_reddit_ignores_missing:
  assumes "Reddit (credentials_of getenv) = Inr reddit" and "user_me reddit = Inr me"
  shows "initialize_reddit getenv Reddit user_me =
     ([PrawReddit (credentials_of getenv), UserMe], Inr reddit)"
  using assms by (simp add: initialize_reddit_def Let_def)

text \<open>
  Claim C1 does not hold of the code. With \<open>REDDIT_PASSWORD\<close> unset, a variable that
  \<open>required_env_vars\<close> lists, a constructor that accepts the keyword arguments and a
  \<open>reddit.user.me()\<close> that returns \<open>None\<close> (as a read-only client's does),
  \<open>initialize_reddit\<close> raises nothing: it constructs the client with \<open>password=None\<close>,
  goes on to the verification call and returns the client.
\<close>

theorem missing_password_is_not_rejected:
  "''REDDIT_PASSWORD'' \<in> set required_env_vars
   \<and> env_without_password ''REDDIT_PASSWORD'' = None
   \<and> password (credentials_of env_without_password) = None
   \<and> initialize_reddit env_without_password (\<lambda>c. Inr c) (\<lambda>r. Inr (None :: string option))
       = ([PrawReddit (credentials_of env_without_password), UserMe],
          Inr (credentials_of env_without_password))"
  by (simp add: required_env_vars_def env_without_password_def initialize_reddit_def
        credentials_of_def Let_def)

text \<open>
  Claim C5. When the client is constructed and \<open>reddit.user.me()\<close> raises an
  \<open>OAuthException\<close>, \<open>InvalidToken\<close>, \<open>Forbidden\<close>, \<open>BadRequest\<close> or \<open>ServerError\<close> (or a
  plain \<open>ResponseException\<close> or \<open>RequestException\<close>), \<open>initialize_reddit\<close> makes that one
  verification call and raises a \<open>RuntimeError\<close> whose cause is the exception caught
  and whose message ends with that exception's text.
\<close>

theorem verification_error_wrapped:
  assumes "Reddit (credentials_of getenv) = Inr reddit"
    and "user_me reddit = Inl e"
    and "cls e \<in> {OAuthException, InvalidToken, Forbidden, BadRequest, ServerError,
                   ResponseException, RequestException}"
  shows "initialize_reddit getenv Reddit user_me =
     ([PrawReddit (credentials_of getenv), UserMe],
      Inl (Exc RuntimeError (''Failed to verify Reddit authentication: '' @ detail e) (Some e)))"
proof -
  from assms(3) have "isinstance e [OAuthException, InvalidToken, Forbidden, BadRequest,
                                 ResponseException, RequestException, ServerError]"
    by (auto simp add: isinstance_def)
  with assms(1,2) show ?thesis
    by (simp add: initialize_reddit_def)
qed

theorem verification_error_wrapped_witness:
  "initialize_reddit env_without_password (\<lambda>c. Inr c)
      (\<lambda>r. (Inl (Exc OAuthException ''invalid_grant error processing request'' None)
               :: exc + string))
   = ([PrawReddit (credentials_of env_without_password), UserMe],
      Inl (Exc RuntimeError
        ''Failed to verify Reddit authentication: invalid_grant error processing request''
        (Some (Exc OAuthException ''invalid_grant error processing request'' None))))"
  using verification_error_wrapped
    [of "\<lambda>c. Inr c" env_without_password "credentials_of env_without_password"
        "\<lambda>r. Inl (Exc OAuthException ''invalid_grant error processing request'' None)"
        "Exc OAuthException ''invalid_grant error processing request'' None"]
  by simp

end
